theory Spec2Isabelle
  imports Complex_Main
begin

section \<open>JavaScript values\<close>

text \<open>
  The component \<^verbatim>\<open>ReactiveTable\<close> of \<^verbatim>\<open>src/index.js\<close> receives its data and its schema
  as arbitrary JavaScript values. One datatype holds them: \<^verbatim>\<open>undefined\<close>, \<^verbatim>\<open>null\<close>,
  the booleans, the finite numbers (as rationals; \<^verbatim>\<open>0\<close> and \<^verbatim>\<open>-0\<close> are both \<open>JNum 0\<close>),
  \<^verbatim>\<open>NaN\<close>, the two infinities, the big integers, the strings (in any encoding that
  writes ASCII as itself), the symbols, the arrays, the plain objects (the list of their
  own data properties) and every other object (a function, a date, ...), known by an
  identity only.
\<close>

datatype jsval =
    JUndefined
  | JNull
  | JBool bool
  | JNum rat
  | JNaN
  | JInfinity bool
  | JBigInt int
  | JStr string
  | JSymbol nat
  | JArr "jsval list"
  | JObj "(string \<times> jsval) list"
  | JOther nat

datatype error = TypeError

text \<open>
  What running a piece of the program gives: it throws, it returns a value, or the model
  does not determine which (\<open>Unknown\<close>); nothing is claimed about the program
  there.
\<close>

datatype 'a outcome = Unknown | Throws error | Returns 'a

fun and_then :: "'a outcome \<Rightarrow> ('a \<Rightarrow> 'b outcome) \<Rightarrow> 'b outcome" where
  "and_then Unknown f = Unknown"
| "and_then (Throws e) f = Throws e"
| "and_then (Returns x) f = f x"

fun returns :: "'a outcome \<Rightarrow> bool" where
  "returns (Returns x) = True"
| "returns r = False"

text \<open>
  JavaScript's truthiness, as \<^verbatim>\<open>!x\<close> and \<^verbatim>\<open>x ? a : b\<close> read it. Every object is
  truthy (the legacy \<^verbatim>\<open>document.all\<close> apart, which is no value of the model).
\<close>

fun truthy :: "jsval \<Rightarrow> bool" where
  "truthy JUndefined = False"
| "truthy JNull = False"
| "truthy (JBool b) = b"
| "truthy (JNum q) = (q \<noteq> 0)"
| "truthy JNaN = False"
| "truthy (JInfinity s) = True"
| "truthy (JBigInt n) = (n \<noteq> 0)"
| "truthy (JStr s) = (s \<noteq> [])"
| "truthy (JSymbol n) = True"
| "truthy (JArr xs) = True"
| "truthy (JObj kvs) = True"
| "truthy (JOther n) = True"

text \<open>The values that \<^verbatim>\<open>??\<close> replaces, and on which a property read throws.\<close>

fun nullish :: "jsval \<Rightarrow> bool" where
  "nullish JUndefined = True"
| "nullish JNull = True"
| "nullish v = False"

text \<open>\<^verbatim>\<open>Array.isArray\<close>.\<close>

fun isArray :: "jsval \<Rightarrow> bool" where
  "isArray (JArr xs) = True"
| "isArray v = False"

text \<open>
  A property read \<^verbatim>\<open>v[k]\<close> on a value that is neither \<^verbatim>\<open>null\<close> nor
  \<^verbatim>\<open>undefined\<close> is a matter of the language: it converts the key to a property name,
  looks at the value's own properties, then up its prototype chain. The model takes it
  as a parameter, a function of the value and of the key that says what the read
  returns, or that it throws. What is proved holds for every such function. A read is
  taken to depend on the value and the key only: the data holds no getter with an effect.
\<close>

type_synonym reads = "jsval \<Rightarrow> jsval \<Rightarrow> jsval outcome"

text \<open>\<^verbatim>\<open>v[k]\<close>: a TypeError on \<^verbatim>\<open>null\<close> and \<^verbatim>\<open>undefined\<close>.\<close>

definition js_get :: "reads \<Rightarrow> jsval \<Rightarrow> jsval \<Rightarrow> jsval outcome" where
  "js_get E v k = (if nullish v then Throws TypeError else E v k)"

text \<open>
  The receiver of \<^verbatim>\<open>.some(...)\<close> and \<^verbatim>\<open>.map(...)\<close>. On an array the method of
  \<^verbatim>\<open>Array.prototype\<close> runs over its elements; on \<^verbatim>\<open>null\<close> and \<^verbatim>\<open>undefined\<close> the
  read of the method throws. For any other receiver the model does not say.
\<close>

fun as_array :: "jsval \<Rightarrow> jsval list outcome" where
  "as_array (JArr xs) = Returns xs"
| "as_array JUndefined = Throws TypeError"
| "as_array JNull = Throws TypeError"
| "as_array v = Unknown"

text \<open>\<^verbatim>\<open>v.length\<close>, likewise.\<close>

fun js_length :: "jsval \<Rightarrow> nat outcome" where
  "js_length (JArr xs) = Returns (length xs)"
| "js_length JUndefined = Throws TypeError"
| "js_length JNull = Throws TypeError"
| "js_length v = Unknown"

text \<open>The decimal digits of a natural number, as a template literal prints a length.\<close>

definition digit_char :: "nat \<Rightarrow> char" where
  "digit_char d = ''0123456789'' ! d"

fun show_nat :: "nat \<Rightarrow> string" where
  "show_nat n =
     (if n < 10 then [digit_char n] else show_nat (n div 10) @ [digit_char (n mod 10)])"

declare show_nat.simps [simp del]

text \<open>
  \<^verbatim>\<open>xs.map(f)\<close> where \<open>f\<close> may throw: the first call that does not return ends
  the loop.
\<close>

fun map_out :: "('a \<Rightarrow> 'b outcome) \<Rightarrow> 'a list \<Rightarrow> 'b list outcome" where
  "map_out f [] = Returns []"
| "map_out f (x # xs) =
     (case f x of
        Unknown \<Rightarrow> Unknown
      | Throws e \<Rightarrow> Throws e
      | Returns y \<Rightarrow>
          (case map_out f xs of
             Unknown \<Rightarrow> Unknown
           | Throws e \<Rightarrow> Throws e
           | Returns ys \<Rightarrow> Returns (y # ys)))"


section \<open>The component and its surroundings\<close>

text \<open>
  A value held by a property of the component or passed in an event: a primitive, a
  reference to an array or object of the heap, or a wrapper made by \<^verbatim>\<open>onChange\<close>
  (its identity, the value it wraps and the event name its callback dispatches).
\<close>

type_synonym addr = nat

datatype val =
    Prim jsval
  | Ref addr
  | Watched nat val string

text \<open>
  One track of the custom property \<^verbatim>\<open>--gridtemplate\<close>: a length such as \<^verbatim>\<open>1rem\<close>,
  or \<^verbatim>\<open>repeat(n, len)\<close>.
\<close>

datatype track = Len string | Repeat nat string

text \<open>
  What the component does to its surroundings: \<^verbatim>\<open>dispatchEvent(new CustomEvent(name,
  {detail}))\<close> and \<^verbatim>\<open>requestUpdate()\<close>.
\<close>

datatype effect = DispatchEvent string val | RequestUpdate

text \<open>
  The state: the reactive properties \<^verbatim>\<open>data\<close>, \<^verbatim>\<open>schema\<close> and \<^verbatim>\<open>dateFormat\<close>, the
  field \<^verbatim>\<open>hasHiddenRows\<close>, the style property \<^verbatim>\<open>--gridtemplate\<close>, and what the
  component acts on: the heap of arrays and objects, the counters that give new heap
  cells and new wrappers their identity, and the effects so far, oldest first.
\<close>

record component =
  data :: val
  schema :: val
  dateFormat :: "string option"
  hasHiddenRows :: bool
  gridtemplate :: string
  heap :: "addr \<Rightarrow> jsval"
  next_addr :: addr
  next_id :: nat
  effects :: "effect list"

text \<open>
  The calendar library \<^verbatim>\<open>moment\<close> is imported, not part of the sources: the formatter
  takes it as a parameter. \<open>lib_format L v f\<close> is \<^verbatim>\<open>moment(v).format(f)\<close> and
  \<open>lib_toISOString L v\<close> is \<^verbatim>\<open>moment(v).toISOString()\<close>.
\<close>

record datelib =
  lib_format :: "jsval \<Rightarrow> string \<Rightarrow> jsval outcome"
  lib_toISOString :: "jsval \<Rightarrow> jsval outcome"


section \<open>A model of the calendar library\<close>

text \<open>
  Modelled from the spec: the library \<^verbatim>\<open>moment\<close> is imported, not part of the
  sources. By section 4.3 the raw value is parsed as a calendar date and time and
  rendered with the configured format, or as an ISO-8601 string. The model covers a
  fragment: numbers (milliseconds since the epoch) and strings \<^verbatim>\<open>YYYY-MM-DD\<close>,
  optionally followed by \<^verbatim>\<open>THH:mm:ss\<close>, \<^verbatim>\<open>.SSS\<close> and \<^verbatim>\<open>Z\<close>; the format tokens
  \<^verbatim>\<open>YYYY\<close>, \<^verbatim>\<open>MM\<close>, \<^verbatim>\<open>DD\<close>, \<^verbatim>\<open>HH\<close>, \<^verbatim>\<open>mm\<close>, \<^verbatim>\<open>ss\<close> and
  \<^verbatim>\<open>SSS\<close> between characters that are not letters; the years 0 to 9999. Outside the
  fragment the result is \<open>Unknown\<close>. The library reads a string without \<^verbatim>\<open>Z\<close> and
  renders a format in the host's local time, and renders an ISO-8601 string in UTC:
  \<open>tz\<close> is the host's offset from UTC in minutes, east positive, at the instants
  concerned.
\<close>

definition is_digit :: "char \<Rightarrow> bool" where
  "is_digit c = (c \<in> set ''0123456789'')"

definition digit_val :: "char \<Rightarrow> nat" where
  "digit_val c = of_char c - 48"

definition parse_nat :: "string \<Rightarrow> nat option" where
  "parse_nat cs =
     (if cs \<noteq> [] \<and> list_all is_digit cs
      then Some (foldl (\<lambda>a c. 10 * a + digit_val c) 0 cs) else None)"

definition is_letter :: "char \<Rightarrow> bool" where
  "is_letter c = (let n = (of_char c :: nat) in (65 \<le> n \<and> n \<le> 90) \<or> (97 \<le> n \<and> n \<le> 122))"

definition pad :: "nat \<Rightarrow> nat \<Rightarrow> string" where
  "pad w n = replicate (w - length (show_nat n)) CHR ''0'' @ show_nat n"

definition is_leap :: "int \<Rightarrow> bool" where
  "is_leap y = (y mod 4 = 0 \<and> (y mod 100 \<noteq> 0 \<or> y mod 400 = 0))"

definition days_in_month :: "int \<Rightarrow> nat \<Rightarrow> nat" where
  "days_in_month y m =
     (if m = 2 then (if is_leap y then 29 else 28)
      else if m \<in> {4, 6, 9, 11} then 30 else 31)"

text \<open>The day number of a date of the Gregorian calendar, counted from 1970-01-01, and back.\<close>

definition days_from_civil :: "int \<Rightarrow> int \<Rightarrow> int \<Rightarrow> int" where
  "days_from_civil y m d =
     (let y' = (if m \<le> 2 then y - 1 else y);
          era = y' div 400;
          yoe = y' - era * 400;
          doy = (153 * (if m > 2 then m - 3 else m + 9) + 2) div 5 + d - 1;
          doe = yoe * 365 + yoe div 4 - yoe div 100 + doy
      in era * 146097 + doe - 719468)"

definition civil_from_days :: "int \<Rightarrow> int \<times> int \<times> int" where
  "civil_from_days z =
     (let z' = z + 719468;
          era = z' div 146097;
          doe = z' - era * 146097;
          yoe = (doe - doe div 1460 + doe div 36524 - doe div 146096) div 365;
          doy = doe - (365 * yoe + yoe div 4 - yoe div 100);
          mp = (5 * doy + 2) div 153;
          d = doy - (153 * mp + 2) div 5 + 1;
          m = (if mp < 10 then mp + 3 else mp - 9)
      in ((if m \<le> 2 then yoe + era * 400 + 1 else yoe + era * 400), m, d))"

text \<open>The fields of the instant \<open>t\<close>, in milliseconds since the epoch, read in UTC.\<close>

record fields =
  f_year :: int
  f_month :: int
  f_day :: int
  f_hour :: int
  f_minute :: int
  f_second :: int
  f_ms :: int

definition fields_of :: "int \<Rightarrow> fields" where
  "fields_of t =
     (case civil_from_days (t div 86400000) of (y, m, d) \<Rightarrow>
        (let r = t mod 86400000 in
         \<lparr>f_year = y, f_month = m, f_day = d,
          f_hour = r div 3600000, f_minute = (r div 60000) mod 60,
          f_second = (r div 1000) mod 60, f_ms = r mod 1000\<rparr>))"

text \<open>A format string, cut where the character changes.\<close>

fun runs :: "string \<Rightarrow> string list" where
  "runs [] = []"
| "runs (c # cs) =
     (case runs cs of
        (d # r) # rs \<Rightarrow> if d = c then (c # d # r) # rs else [c] # (d # r) # rs
      | _ \<Rightarrow> [[c]])"

definition format_run :: "fields \<Rightarrow> string \<Rightarrow> string option" where
  "format_run f r =
     (if r = ''YYYY'' then (if 0 \<le> f_year f \<and> f_year f \<le> 9999 then Some (pad 4 (nat (f_year f))) else None)
      else if r = ''MM'' then Some (pad 2 (nat (f_month f)))
      else if r = ''DD'' then Some (pad 2 (nat (f_day f)))
      else if r = ''HH'' then Some (pad 2 (nat (f_hour f)))
      else if r = ''mm'' then Some (pad 2 (nat (f_minute f)))
      else if r = ''ss'' then Some (pad 2 (nat (f_second f)))
      else if r = ''SSS'' then Some (pad 3 (nat (f_ms f)))
      else if list_ex (\<lambda>c. is_letter c \<or> c = CHR ''['' \<or> c = CHR '']'' \<or> of_char c = (92::nat)) r
      then None
      else Some r)"

fun format_runs :: "fields \<Rightarrow> string list \<Rightarrow> string option" where
  "format_runs f [] = Some []"
| "format_runs f (r # rs) =
     (case format_run f r of
        None \<Rightarrow> None
      | Some s \<Rightarrow> (case format_runs f rs of None \<Rightarrow> None | Some t \<Rightarrow> Some (s @ t)))"

definition parse_frac :: "string \<Rightarrow> (nat \<times> bool) option" where
  "parse_frac s =
     (if s = [] then Some (0, False)
      else if s = ''Z'' then Some (0, True)
      else if length s \<ge> 4 \<and> s ! 0 = CHR ''.'' then
        (case parse_nat (take 3 (drop 1 s)) of
           None \<Rightarrow> None
         | Some ms \<Rightarrow>
             if drop 4 s = [] then Some (ms, False)
             else if drop 4 s = ''Z'' then Some (ms, True)
             else None)
      else None)"

definition parse_time :: "string \<Rightarrow> (nat \<times> bool) option" where
  "parse_time s =
     (if s = [] then Some (0, False)
      else if length s \<ge> 9 \<and> s ! 0 = CHR ''T'' \<and> s ! 3 = CHR '':'' \<and> s ! 6 = CHR '':'' then
        (case (parse_nat (take 2 (drop 1 s)), parse_nat (take 2 (drop 4 s)),
               parse_nat (take 2 (drop 7 s)), parse_frac (drop 9 s)) of
           (Some h, Some m, Some sec, Some (ms, utc)) \<Rightarrow>
             if h < 24 \<and> m < 60 \<and> sec < 60
             then Some (((h * 60 + m) * 60 + sec) * 1000 + ms, utc) else None
         | _ \<Rightarrow> None)
      else None)"

definition parse_iso :: "int \<Rightarrow> string \<Rightarrow> int option" where
  "parse_iso tz s =
     (if length s \<ge> 10 \<and> s ! 4 = CHR ''-'' \<and> s ! 7 = CHR ''-'' then
        (case (parse_nat (take 4 s), parse_nat (take 2 (drop 5 s)),
               parse_nat (take 2 (drop 8 s)), parse_time (drop 10 s)) of
           (Some y, Some m, Some d, Some (ms, utc)) \<Rightarrow>
             if 1 \<le> m \<and> m \<le> 12 \<and> 1 \<le> d \<and> d \<le> days_in_month (int y) m
             then Some (days_from_civil (int y) (int m) (int d) * 86400000 + int ms
                        - (if utc then 0 else tz * 60000))
             else None
         | _ \<Rightarrow> None)
      else None)"

text \<open>\<^verbatim>\<open>moment(v)\<close>: the instant, when the model determines it.\<close>

fun moment :: "int \<Rightarrow> jsval \<Rightarrow> int option" where
  "moment tz (JNum q) =
     (if of_int \<lfloor>q\<rfloor> = q \<and> - 8640000000000000 \<le> \<lfloor>q\<rfloor> \<and> \<lfloor>q\<rfloor> \<le> 8640000000000000
      then Some \<lfloor>q\<rfloor> else None)"
| "moment tz (JStr s) = parse_iso tz s"
| "moment tz v = None"

definition moment_format :: "int \<Rightarrow> jsval \<Rightarrow> string \<Rightarrow> jsval outcome" where
  "moment_format tz v fmt =
     (case moment tz v of
        None \<Rightarrow> Unknown
      | Some t \<Rightarrow>
          (case format_runs (fields_of (t + tz * 60000)) (runs fmt) of
             None \<Rightarrow> Unknown
           | Some s \<Rightarrow> Returns (JStr s)))"

definition moment_toISOString :: "int \<Rightarrow> jsval \<Rightarrow> jsval outcome" where
  "moment_toISOString tz v =
     (case moment tz v of
        None \<Rightarrow> Unknown
      | Some t \<Rightarrow>
          (let f = fields_of t in
           if 0 \<le> f_year f \<and> f_year f \<le> 9999 then
             Returns (JStr (pad 4 (nat (f_year f)) @ ''-'' @ pad 2 (nat (f_month f)) @ ''-''
                   @ pad 2 (nat (f_day f)) @ ''T'' @ pad 2 (nat (f_hour f)) @ '':''
                   @ pad 2 (nat (f_minute f)) @ '':'' @ pad 2 (nat (f_second f)) @ ''.''
                   @ pad 3 (nat (f_ms f)) @ ''Z''))
           else Unknown))"

definition moment_lib :: "int \<Rightarrow> datelib" where
  "moment_lib tz = \<lparr>lib_format = moment_format tz, lib_toISOString = moment_toISOString tz\<rparr>"


section \<open>The value formatter\<close>

text \<open>
  What \<^verbatim>\<open>_getValue\<close> returns: a value that the template prints as text, a value passed
  to \<^verbatim>\<open>unsafeStatic\<close>, or the template \<^verbatim>\<open><img src="${v}" />\<close>.
\<close>

datatype display = Plain jsval | UnsafeStatic jsval | Img jsval

text \<open>
  \<^verbatim>\<open>moment(v)\<close> rendered as line 283 to 285 do: \<^verbatim>\<open>this.dateFormat\<close> is falsy when
  it is not set or the empty string.
\<close>

definition format_date :: "datelib \<Rightarrow> component \<Rightarrow> jsval \<Rightarrow> jsval outcome" where
  "format_date L this v =
     (case dateFormat this of
        None \<Rightarrow> lib_toISOString L v
      | Some f \<Rightarrow> if f \<noteq> [] then lib_format L v f else lib_toISOString L v)"

text \<open>
  \<^verbatim>\<open>_getValue(row, header)\<close>, lines 275 to 296. \<^verbatim>\<open>header.key\<close>, \<^verbatim>\<open>row[...]\<close>,
  \<^verbatim>\<open>header.default\<close> and \<^verbatim>\<open>header.type\<close> are property reads.
\<close>

definition getValue :: "reads \<Rightarrow> datelib \<Rightarrow> component \<Rightarrow> jsval \<Rightarrow> jsval \<Rightarrow> display outcome" where
  "getValue E L this row header =
     and_then (js_get E header (JStr ''key'')) (\<lambda>k.
     and_then (js_get E row k) (\<lambda>v.
       if \<not> truthy v then
         and_then (js_get E header (JStr ''default'')) (\<lambda>d.
           Returns (Plain (if nullish d then JStr [] else d)))
       else
         and_then (js_get E header (JStr ''type'')) (\<lambda>t.
           if t = JStr ''date'' then
             and_then (format_date L this v) (\<lambda>s. Returns (Plain s))
           else if t = JStr ''html'' then Returns (UnsafeStatic v)
           else if t = JStr ''image'' then Returns (Img v)
           else Returns (Plain v))))"


section \<open>The render planner\<close>

text \<open>
  The rendered tree. A cell is a \<^verbatim>\<open>th\<close> or \<^verbatim>\<open>td\<close> element: its tag, the tokens of
  its \<^verbatim>\<open>class\<close> attribute, whether \<^verbatim>\<open>@click\<close> binds the toggle handler to it, and
  what it holds: nothing, the text written in the template, or the value of a
  \<^verbatim>\<open>${...}\<close> expression.
\<close>

datatype content = Empty | Static string | Hole display

datatype cell = Cell (tag: string) (classes: "string list") (onclick: bool) (inner: content)

text \<open>
  The table: the cells of the one row of \<^verbatim>\<open>thead\<close>, the rows of \<^verbatim>\<open>tbody\<close>, and the
  number that the footer prints before \<^verbatim>\<open>records\<close>.
\<close>

record rendered =
  thead :: "cell list"
  tbody :: "cell list list"
  tfoot_records :: jsval

text \<open>
  Reading through a property: a wrapper of \<^verbatim>\<open>onChange\<close> is transparent, a reference
  gives the heap's value.
\<close>

fun read :: "component \<Rightarrow> val \<Rightarrow> jsval" where
  "read this (Prim v) = v"
| "read this (Ref a) = heap this a"
| "read this (Watched i obj ev) = read this obj"

text \<open>\<^verbatim>\<open>_getHeaders()\<close>, lines 200 to 206.\<close>

definition getHeaders :: "reads \<Rightarrow> component \<Rightarrow> cell list outcome" where
  "getHeaders E this =
     and_then (as_array (read this (schema this))) (\<lambda>S.
     and_then (map_out (\<lambda>h. and_then (js_get E h (JStr ''name'')) (\<lambda>n.
                               Returns (Cell ''th'' [] False (Hole (Plain n))))) S) (\<lambda>cs.
       Returns ((if hasHiddenRows this then [Cell ''th'' [] False Empty] else []) @ cs)))"

text \<open>
  \<^verbatim>\<open>this.schema.map((header) => html`<td class=...>${this._getValue(row, header)}</td>`)\<close>,
  which lines 239 to 243 and 258 to 262 apply to a sub-row and to a simple row.
\<close>

definition value_cells ::
    "reads \<Rightarrow> datelib \<Rightarrow> component \<Rightarrow> string list \<Rightarrow> jsval \<Rightarrow> cell list outcome" where
  "value_cells E L this cls row =
     and_then (as_array (read this (schema this))) (\<lambda>S.
       map_out (\<lambda>header. and_then (getValue E L this row header) (\<lambda>d.
                            Returns (Cell ''td'' cls False (Hole d)))) S)"

text \<open>The callback of \<^verbatim>\<open>row.map((subrow, index) => ...)\<close>, lines 229 to 245.\<close>

definition subrow_cells ::
    "reads \<Rightarrow> datelib \<Rightarrow> component \<Rightarrow> nat \<times> jsval \<Rightarrow> cell list outcome" where
  "subrow_cells E L this p =
     (case p of (index, subrow) \<Rightarrow>
        and_then (value_cells E L this
                    (if index \<noteq> 0 then [''subrow'', ''hidden''] else []) subrow) (\<lambda>cs.
          Returns (Cell ''td'' (if index \<noteq> 0 then [''subrow'', ''hidden''] else [''expander''])
                     True Empty # cs)))"

text \<open>
  The callback of \<^verbatim>\<open>this.data.map((row) => ...)\<close>, lines 223 to 266: one \<^verbatim>\<open>tr\<close> for
  a row, which holds the cells of all the sub-rows when the row is an array.
\<close>

definition row_cells :: "reads \<Rightarrow> datelib \<Rightarrow> component \<Rightarrow> jsval \<Rightarrow> cell list outcome" where
  "row_cells E L this row =
     (case row of
        JArr subs \<Rightarrow>
          and_then (map_out (subrow_cells E L this) (enumerate 0 subs)) (\<lambda>css.
            Returns (concat css))
      | _ \<Rightarrow>
          and_then (value_cells E L this [] row) (\<lambda>cs.
            Returns ((if hasHiddenRows this then [Cell ''td'' [] False Empty] else []) @ cs)))"

definition nodata_row :: "cell list" where
  "nodata_row = [Cell ''td'' [''nodata''] False (Static ''There is no data to show'')]"

text \<open>\<^verbatim>\<open>_getRows()\<close>, lines 211 to 268.\<close>

definition getRows :: "reads \<Rightarrow> datelib \<Rightarrow> component \<Rightarrow> cell list list outcome" where
  "getRows E L this =
     and_then (js_length (read this (data this))) (\<lambda>n.
       if n = 0 then Returns [nodata_row]
       else and_then (as_array (read this (data this))) (\<lambda>D.
              map_out (row_cells E L this) D))"

text \<open>
  \<^verbatim>\<open>render()\<close>, lines 144 to 174. It sets \<^verbatim>\<open>this.hasHiddenRows\<close> and the style
  property, then builds the tree. An exception ends it; the state it leaves then is not
  modelled.
\<close>

definition render :: "reads \<Rightarrow> datelib \<Rightarrow> component \<Rightarrow> (component \<times> rendered) outcome" where
  "render E L this =
     and_then (as_array (read this (data this))) (\<lambda>D.
       (let this1 = this\<lparr>hasHiddenRows := list_ex isArray D\<rparr> in
        and_then (js_length (read this1 (schema this1))) (\<lambda>n.
          (let this2 = this1\<lparr>gridtemplate :=
                 (if hasHiddenRows this1 then ''1rem repeat('' @ show_nat n @ '', 1fr)''
                  else ''repeat('' @ show_nat n @ '', 1fr)'')\<rparr> in
           and_then (getHeaders E this2) (\<lambda>hs.
           and_then (getRows E L this2) (\<lambda>rows.
           and_then (js_length (read this2 (data this2))) (\<lambda>len.
             Returns (this2, \<lparr>thead = hs, tbody = rows,
                              tfoot_records = JNum (of_nat len)\<rparr>))))))))"

text \<open>
  What the style property says: a list of tracks, written as CSS by
  \<open>css_of_tracks\<close>; \<open>column_count\<close> is the number of columns that the tracks
  ask for, one for a length and \<open>n\<close> for \<^verbatim>\<open>repeat(n, len)\<close>. (CSS takes a
  repetition only when \<open>n\<close> is positive: with an empty schema the property is set
  to a value that the grid does not accept.)
\<close>

fun css_of_track :: "track \<Rightarrow> string" where
  "css_of_track (Len l) = l"
| "css_of_track (Repeat n l) = ''repeat('' @ show_nat n @ '', '' @ l @ '')''"

fun css_of_tracks :: "track list \<Rightarrow> string" where
  "css_of_tracks [] = []"
| "css_of_tracks [t] = css_of_track t"
| "css_of_tracks (t # u # ts) = css_of_track t @ '' '' @ css_of_tracks (u # ts)"

fun track_columns :: "track \<Rightarrow> nat" where
  "track_columns (Len l) = 1"
| "track_columns (Repeat n l) = n"

definition column_count :: "track list \<Rightarrow> nat" where
  "column_count ts = sum_list (map track_columns ts)"

text \<open>
  Data and schema on which rendering stops nowhere: the read of every column's name
  returns a value, and so does the formatting of every cell (its property reads and the
  calendar library). Of plain data that holds neither \<^verbatim>\<open>null\<close> nor
  \<^verbatim>\<open>undefined\<close> in the place of a column, a row or a sub-row the reads return, since
  a read of such a value does not throw.
\<close>

definition header_ok :: "reads \<Rightarrow> jsval \<Rightarrow> bool" where
  "header_ok E h = returns (js_get E h (JStr ''name''))"

definition cell_ok :: "reads \<Rightarrow> datelib \<Rightarrow> component \<Rightarrow> jsval \<Rightarrow> jsval \<Rightarrow> bool" where
  "cell_ok E L this row h = returns (getValue E L this row h)"

definition row_ok :: "reads \<Rightarrow> datelib \<Rightarrow> component \<Rightarrow> jsval list \<Rightarrow> jsval \<Rightarrow> bool" where
  "row_ok E L this S r =
     (case r of
        JArr subs \<Rightarrow> list_all (\<lambda>s. list_all (cell_ok E L this s) S) subs
      | _ \<Rightarrow> list_all (cell_ok E L this r) S)"

definition well_formed ::
    "reads \<Rightarrow> datelib \<Rightarrow> component \<Rightarrow> jsval list \<Rightarrow> jsval list \<Rightarrow> bool" where
  "well_formed E L this S D =
     (list_all (header_ok E) S \<and> list_all (row_ok E L this S) D)"

text \<open>The name of a column, when the read of it returns.\<close>

definition column_name :: "reads \<Rightarrow> jsval \<Rightarrow> jsval" where
  "column_name E h = (case js_get E h (JStr ''name'') of Returns n \<Rightarrow> n | _ \<Rightarrow> JUndefined)"

text \<open>
  The header cells of the rendered header row: the cells that hold a column's name,
  \<^verbatim>\<open><th>${h.name}</th>\<close>, as opposed to the empty \<^verbatim>\<open><th></th>\<close> that stands over the
  column of the expanders.
\<close>

definition header_cells :: "rendered \<Rightarrow> cell list" where
  "header_cells tree = filter (\<lambda>c. inner c \<noteq> Empty) (thead tree)"


section \<open>The mutation watcher\<close>


text \<open>
  \<^verbatim>\<open>_watchObject(obj, eventName)\<close>, lines 185 to 195: a new wrapper of \<open>obj\<close>, whatever
  \<open>obj\<close> is.
\<close>

definition watchObject :: "val \<Rightarrow> string \<Rightarrow> component \<Rightarrow> val \<times> component" where
  "watchObject obj eventName this =
     (Watched (next_id this) obj eventName, this\<lparr>next_id := Suc (next_id this)\<rparr>)"




text \<open>A new array or object literal: a new cell of the heap.\<close>

definition alloc :: "jsval \<Rightarrow> component \<Rightarrow> addr \<times> component" where
  "alloc v this =
     (next_addr this,
      this\<lparr>heap := (heap this)(next_addr this := v), next_addr := Suc (next_addr this)\<rparr>)"

text \<open>
  \<^verbatim>\<open>constructor()\<close>, lines 120 to 125, run on the element as \<^verbatim>\<open>super()\<close> leaves it.
\<close>

definition constructor :: "component \<Rightarrow> component" where
  "constructor this =
     (case alloc (JArr []) this of (a, this1) \<Rightarrow>
      case watchObject (Ref a) ''data-change'' this1 of (d, this2) \<Rightarrow>
      case alloc (JArr []) (this2\<lparr>data := d\<rparr>) of (b, this3) \<Rightarrow>
      case watchObject (Ref b) ''schema-change'' this3 of (s, this4) \<Rightarrow>
        this4\<lparr>schema := s, hasHiddenRows := False\<rparr>)"

text \<open>
  The truthiness of a property's value: that of the primitive it holds, or of the value
  it refers to; a wrapper is an object, and truthy.
\<close>

fun truthy_val :: "component \<Rightarrow> val \<Rightarrow> bool" where
  "truthy_val this (Prim v) = truthy v"
| "truthy_val this (Ref a) = truthy (heap this a)"
| "truthy_val this (Watched i obj ev) = True"

text \<open>
  \<^verbatim>\<open>willUpdate(changed)\<close>, lines 132 to 139; \<open>changed\<close> is the set of the names that
  \<^verbatim>\<open>changed.has\<close> answers for.
\<close>

definition willUpdate :: "string set \<Rightarrow> component \<Rightarrow> component" where
  "willUpdate changed this =
     (let this1 =
            (if ''data'' \<in> changed \<and> truthy_val this (data this)
             then (case watchObject (data this) ''data-change'' this of
                     (w, t) \<Rightarrow> t\<lparr>data := w\<rparr>)
             else this)
      in if ''schema'' \<in> changed \<and> truthy_val this1 (schema this1)
         then (case watchObject (schema this1) ''schema-change'' this1 of
                 (w, t) \<Rightarrow> t\<lparr>schema := w\<rparr>)
         else this1)"

text \<open>
  An assignment from outside, \<^verbatim>\<open>el.data = v\<close> or \<^verbatim>\<open>el.schema = v\<close>, and the
  update that follows. \<^verbatim>\<open>data\<close> and \<^verbatim>\<open>schema\<close> are declared reactive properties
  (lines 91 to 115): the property takes the value and, unless the value is the one it
  held, the update calls \<^verbatim>\<open>willUpdate\<close> with the property's name in \<open>changed\<close>.
\<close>

text \<open>
  Whether an assigned value is the one that the property held. References and wrappers
  are compared by identity, primitives by value; an array or object written in the place
  of a primitive has no identity and is never the value held before.
\<close>

definition same_value :: "val \<Rightarrow> val \<Rightarrow> bool" where
  "same_value v w =
     (v = w \<and> (case v of Prim (JArr xs) \<Rightarrow> False | Prim (JObj kvs) \<Rightarrow> False | _ \<Rightarrow> True))"

definition assign_data :: "val \<Rightarrow> component \<Rightarrow> component" where
  "assign_data v this =
     (if same_value v (data this) then this
      else willUpdate {''data''} (this\<lparr>data := v\<rparr>))"

definition assign_schema :: "val \<Rightarrow> component \<Rightarrow> component" where
  "assign_schema v this =
     (if same_value v (schema this) then this
      else willUpdate {''schema''} (this\<lparr>schema := v\<rparr>))"

text \<open>The element before its constructor runs, in an empty heap.\<close>

definition blank :: component where
  "blank = \<lparr>data = Prim JUndefined, schema = Prim JUndefined, dateFormat = None,
            hasHiddenRows = False, gridtemplate = ''repeat(1, 1fr)'',
            heap = (\<lambda>a. JUndefined), next_addr = 0, next_id = 0, effects = []\<rparr>"

text \<open>The identities of the wrappers a value is made of, outermost first.\<close>

fun wrapper_ids :: "val \<Rightarrow> nat list" where
  "wrapper_ids (Prim v) = []"
| "wrapper_ids (Ref a) = []"
| "wrapper_ids (Watched i obj ev) = i # wrapper_ids obj"




text \<open>A value that is, or refers to, an array or an object, wrapped or not.\<close>

fun object_value :: "jsval \<Rightarrow> bool" where
  "object_value (JArr xs) = True"
| "object_value (JObj kvs) = True"
| "object_value (JOther n) = True"
| "object_value v = False"

fun holds_object :: "component \<Rightarrow> val \<Rightarrow> bool" where
  "holds_object this (Prim v) = object_value v"
| "holds_object this (Ref a) = object_value (heap this a)"
| "holds_object this (Watched i obj ev) = True"

text \<open>
  Every wrapper that a value is made of came from an earlier call of
  \<^verbatim>\<open>_watchObject\<close>: its identity is below the counter.
\<close>

definition ids_below :: "nat \<Rightarrow> val \<Rightarrow> bool" where
  "ids_below n v = list_all (\<lambda>i. i < n) (wrapper_ids v)"

definition ids_fresh :: "component \<Rightarrow> bool" where
  "ids_fresh this =
     (ids_below (next_id this) (data this) \<and> ids_below (next_id this) (schema this))"



section \<open>The expansion toggle\<close>

text \<open>\<^verbatim>\<open>classList.toggle(token)\<close>: removes the token when present, adds it otherwise.\<close>

definition toggle :: "string \<Rightarrow> string list \<Rightarrow> string list" where
  "toggle t cs = (if t \<in> set cs then removeAll t cs else cs @ [t])"

definition toggle_class :: "string \<Rightarrow> cell \<Rightarrow> cell" where
  "toggle_class t c = Cell (tag c) (toggle t (classes c)) (onclick c) (inner c)"

text \<open>
  The body of the \<^verbatim>\<open>forEach\<close> over \<^verbatim>\<open>row.querySelectorAll('.subrow')\<close>: the cells
  of the row whose class list has \<^verbatim>\<open>subrow\<close> toggle \<^verbatim>\<open>hidden\<close>.
\<close>

definition toggle_subrow :: "cell \<Rightarrow> cell" where
  "toggle_subrow c = (if ''subrow'' \<in> set (classes c) then toggle_class ''hidden'' c else c)"

text \<open>
  \<^verbatim>\<open>_handleToggleExpandClick(e)\<close>, lines 302 to 310, on the rendered tree; \<open>r\<close> and
  \<open>c\<close> are the places of the row and of the cell \<^verbatim>\<open>e.target\<close> in the body.
\<close>

definition handleToggleExpandClick :: "nat \<Rightarrow> nat \<Rightarrow> rendered \<Rightarrow> rendered" where
  "handleToggleExpandClick r c tree =
     (let row = map toggle_subrow (tbody tree ! r);
          row' = row[c := toggle_class ''expanded'' (row ! c)]
      in tree\<lparr>tbody := (tbody tree)[r := row']\<rparr>)"

text \<open>
  A click on the cell at \<open>(r, c)\<close> of the body: the handler runs when there is such a
  cell and \<^verbatim>\<open>@click\<close> bound the handler to it.
\<close>

definition click :: "nat \<Rightarrow> nat \<Rightarrow> rendered \<Rightarrow> rendered" where
  "click r c tree =
     (if r < length (tbody tree) \<and> c < length (tbody tree ! r) \<and> onclick (tbody tree ! r ! c)
      then handleToggleExpandClick r c tree else tree)"


section \<open>An example\<close>

text \<open>
  Property reads on plain objects, for the examples. The names that a plain object
  inherits from \<^verbatim>\<open>Object.prototype\<close>:
\<close>

definition inherited_names :: "string list" where
  "inherited_names =
     [''constructor'', ''hasOwnProperty'', ''isPrototypeOf'', ''propertyIsEnumerable'',
      ''toLocaleString'', ''toString'', ''valueOf'', ''__proto__'', ''__defineGetter__'',
      ''__defineSetter__'', ''__lookupGetter__'', ''__lookupSetter__'']"

text \<open>
  The read of a property named by a string, on a plain object whose own properties have
  distinct names: the value of the own property of that name; \<^verbatim>\<open>undefined\<close> when
  there is none and the name is not an inherited one. Every other read is
  \<open>Unknown\<close>.
\<close>

fun plain_read :: reads where
  "plain_read (JObj kvs) (JStr k) =
     (if \<not> distinct (map fst kvs) then Unknown
      else case map_of kvs k of
             Some v \<Rightarrow> Returns v
           | None \<Rightarrow> if k \<in> set inherited_names then Unknown else Returns JUndefined)"
| "plain_read v k = Unknown"

text \<open>
  A row with a date and the column that shows it, and a table of two columns whose
  second and third rows are groups of two: \<^verbatim>\<open>el = new ReactiveTable(); el.data = [...];
  el.schema = [...]\<close>, and the tree it renders where the host's clock is UTC.
\<close>

definition date_row :: jsval where
  "date_row = JObj [(''id'', JNum 1), (''when'', JStr ''2024-01-15T00:00:00Z'')]"

definition date_column :: jsval where
  "date_column = JObj [(''key'', JStr ''when''), (''name'', JStr ''When''), (''type'', JStr ''date'')]"

definition id_column :: jsval where
  "id_column = JObj [(''key'', JStr ''id''), (''name'', JStr ''Id'')]"

definition example_schema :: "jsval list" where
  "example_schema = [id_column, date_column]"

definition example_data :: "jsval list" where
  "example_data =
     [date_row,
      JArr [JObj [(''id'', JNum 2)], JObj [(''id'', JNum 3)]],
      JArr [JObj [(''id'', JNum 4)], JObj [(''id'', JNum 5)]]]"

definition example :: component where
  "example =
     (case alloc (JArr example_data) (constructor blank) of (a, t) \<Rightarrow>
      case alloc (JArr example_schema) t of (b, u) \<Rightarrow>
        assign_schema (Ref b) (assign_data (Ref a) u))"


definition headed_table :: component where
  "headed_table =
     (case alloc (JArr example_schema) (constructor blank) of (b, t) \<Rightarrow>
        assign_schema (Ref b) t)"

definition example_tree :: rendered where
  "example_tree =
     (case render plain_read (moment_lib 0) example of
        Returns (this, tree) \<Rightarrow> tree
      | _ \<Rightarrow> \<lparr>thead = [], tbody = [], tfoot_records = JUndefined\<rparr>)"


section \<open>Auxiliary facts\<close>

lemma getValue_falsy:
  assumes "js_get E header (JStr ''key'') = Returns k" and "js_get E row k = Returns v"
    and "\<not> truthy v" and "js_get E header (JStr ''default'') = Returns d"
  shows "getValue E L this row header = Returns (Plain (if nullish d then JStr [] else d))"
  using assms by (simp add: getValue_def)

lemma getValue_date_general:
  assumes "js_get E header (JStr ''key'') = Returns k" and "js_get E row k = Returns v"
    and "truthy v" and "js_get E header (JStr ''type'') = Returns (JStr ''date'')"
  shows "getValue E L this row header =
           and_then (case dateFormat this of
                       None \<Rightarrow> lib_toISOString L v
                     | Some f \<Rightarrow> if f \<noteq> [] then lib_format L v f else lib_toISOString L v)
                    (\<lambda>s. Returns (Plain s))"
  using assms by (simp add: getValue_def format_date_def)

lemma parse_example: "parse_iso tz ''2024-01-15T00:00:00Z'' = Some 1705276800000"
  by code_simp

lemma runs_example: "runs ''YYYY/MM/DD'' = [''YYYY'', ''/'', ''MM'', ''/'', ''DD'']"
  by code_simp

lemma civil_15: "civil_from_days 19737 = (2024, 1, 15)"
  by code_simp

lemma civil_14: "civil_from_days 19736 = (2024, 1, 14)"
  by code_simp

lemma pads: "pad 4 2024 = ''2024''" "pad 2 (Suc 0) = ''01''" "pad 2 15 = ''15''" "pad 2 14 = ''14''"
  by code_simp+

lemma iso_example:
  "moment_toISOString tz (JStr ''2024-01-15T00:00:00Z'') = Returns (JStr ''2024-01-15T00:00:00.000Z'')"
  by code_simp

lemma day_east:
  assumes "0 \<le> tz" and "tz < 1440"
  shows "(1705276800000 + tz * 60000) div 86400000 = (19737::int)"
proof -
  have "1705276800000 + tz * 60000 = 19737 * 86400000 + tz * 60000" by simp
  moreover have "0 \<le> tz * 60000" "tz * 60000 < 86400000" using assms by simp_all
  ultimately show ?thesis
    by (simp add: div_pos_pos_trivial)
qed

lemma day_west:
  assumes "- 1440 \<le> tz" and "tz < 0"
  shows "(1705276800000 + tz * 60000) div 86400000 = (19736::int)"
proof -
  have "1705276800000 + tz * 60000 = 19736 * 86400000 + (86400000 + tz * 60000)" by simp
  moreover have "0 \<le> 86400000 + tz * 60000" "86400000 + tz * 60000 < 86400000"
    using assms by simp_all
  ultimately show ?thesis
    by (simp add: div_pos_pos_trivial)
qed

lemma format_date_only:
  assumes "civil_from_days (t div 86400000) = (y, m, d)" and "0 \<le> y" and "y \<le> 9999"
  shows "format_runs (fields_of t) [''YYYY'', ''/'', ''MM'', ''/'', ''DD''] =
           Some (pad 4 (nat y) @ ''/'' @ pad 2 (nat m) @ ''/'' @ pad 2 (nat d))"
  using assms by (simp add: fields_of_def format_run_def Let_def is_letter_def)

lemma format_east:
  assumes "0 \<le> tz" and "tz < 1440"
  shows "moment_format tz (JStr ''2024-01-15T00:00:00Z'') ''YYYY/MM/DD'' = Returns (JStr ''2024/01/15'')"
proof -
  have "civil_from_days ((1705276800000 + tz * 60000) div 86400000) = (2024, 1, 15)"
    using assms by (simp add: day_east civil_15)
  then have "format_runs (fields_of (1705276800000 + tz * 60000))
               [''YYYY'', ''/'', ''MM'', ''/'', ''DD'']
             = Some (pad 4 (nat 2024) @ ''/'' @ pad 2 (nat 1) @ ''/'' @ pad 2 (nat 15))"
    by (rule format_date_only) simp_all
  also have "\<dots> = Some ''2024/01/15''"
    by (simp add: pads)
  finally have f: "format_runs (fields_of (1705276800000 + tz * 60000))
      [''YYYY'', ''/'', ''MM'', ''/'', ''DD''] = Some ''2024/01/15''" .
  show ?thesis
    unfolding moment_format_def
    by (simp only: moment.simps parse_example runs_example f option.case)
qed

lemma format_west:
  assumes "- 1440 \<le> tz" and "tz < 0"
  shows "moment_format tz (JStr ''2024-01-15T00:00:00Z'') ''YYYY/MM/DD'' = Returns (JStr ''2024/01/14'')"
proof -
  have "civil_from_days ((1705276800000 + tz * 60000) div 86400000) = (2024, 1, 14)"
    using assms by (simp add: day_west civil_14)
  then have "format_runs (fields_of (1705276800000 + tz * 60000))
               [''YYYY'', ''/'', ''MM'', ''/'', ''DD'']
             = Some (pad 4 (nat 2024) @ ''/'' @ pad 2 (nat 1) @ ''/'' @ pad 2 (nat 14))"
    by (rule format_date_only) simp_all
  also have "\<dots> = Some ''2024/01/14''"
    by (simp add: pads)
  finally have f: "format_runs (fields_of (1705276800000 + tz * 60000))
      [''YYYY'', ''/'', ''MM'', ''/'', ''DD''] = Some ''2024/01/14''" .
  show ?thesis
    unfolding moment_format_def
    by (simp only: moment.simps parse_example runs_example f option.case)
qed

lemma date_example_reads:
  "js_get plain_read date_column (JStr ''key'') = Returns (JStr ''when'')"
  "js_get plain_read date_row (JStr ''when'') = Returns (JStr ''2024-01-15T00:00:00Z'')"
  "js_get plain_read date_column (JStr ''type'') = Returns (JStr ''date'')"
  by (simp_all add: js_get_def date_row_def date_column_def)


section \<open>The value formatter: the fallback\<close>

text \<open>
  Claim C4. For every row and column descriptor, if the value of the field named by
  \<^verbatim>\<open>column.key\<close> is absent or falsy (the empty string, 0, \<^verbatim>\<open>null\<close>, ..., with no
  distinction among these), \<^verbatim>\<open>_getValue\<close> returns \<^verbatim>\<open>column.default\<close> when it is
  provided (neither \<^verbatim>\<open>undefined\<close> nor \<^verbatim>\<open>null\<close>) and the empty string otherwise.
  The hypotheses say what the three property reads return, whatever the language makes
  of them: a name that the row inherits (\<^verbatim>\<open>constructor\<close>, \<^verbatim>\<open>toString\<close>, ...) reads as
  a function, which is truthy, and is not a case of this claim. The witness has a raw
  value of 0, of the empty string and no value at all with the default \<^verbatim>\<open>"N/A"\<close>,
  which format to \<^verbatim>\<open>"N/A"\<close>.
\<close>

theorem getValue_falsy_default:
  assumes "js_get E header (JStr ''key'') = Returns k" and "js_get E row k = Returns v"
    and "\<not> truthy v" and "js_get E header (JStr ''default'') = Returns d"
  shows "getValue E L this row header = Returns (Plain (if nullish d then JStr [] else d))"
  using assms by (rule getValue_falsy)

theorem getValue_falsy_default_witness:
  "getValue plain_read (moment_lib 0) blank (JObj [(''price'', JNum 0)])
       (JObj [(''key'', JStr ''price''), (''default'', JStr ''N/A'')])
     = Returns (Plain (JStr ''N/A''))
   \<and> getValue plain_read (moment_lib 0) blank (JObj [(''price'', JStr [])])
       (JObj [(''key'', JStr ''price''), (''default'', JStr ''N/A'')])
     = Returns (Plain (JStr ''N/A''))
   \<and> getValue plain_read (moment_lib 0) blank (JObj [])
       (JObj [(''key'', JStr ''price''), (''default'', JStr ''N/A'')])
     = Returns (Plain (JStr ''N/A''))
   \<and> getValue plain_read (moment_lib 0) blank (JObj [(''price'', JNull)])
       (JObj [(''key'', JStr ''price'')])
     = Returns (Plain (JStr []))"
  using
    getValue_falsy_default [of plain_read
      "JObj [(''key'', JStr ''price''), (''default'', JStr ''N/A'')]"
      "JStr ''price''" "JObj [(''price'', JNum 0)]" "JNum 0" "JStr ''N/A''" "moment_lib 0" blank]
    getValue_falsy_default [of plain_read
      "JObj [(''key'', JStr ''price''), (''default'', JStr ''N/A'')]"
      "JStr ''price''" "JObj [(''price'', JStr [])]" "JStr []" "JStr ''N/A''" "moment_lib 0" blank]
    getValue_falsy_default [of plain_read
      "JObj [(''key'', JStr ''price''), (''default'', JStr ''N/A'')]"
      "JStr ''price''" "JObj []" "JUndefined" "JStr ''N/A''" "moment_lib 0" blank]
    getValue_falsy_default [of plain_read "JObj [(''key'', JStr ''price'')]"
      "JStr ''price''" "JObj [(''price'', JNull)]" "JNull" "JUndefined" "moment_lib 0" blank]
  by (simp add: js_get_def inherited_names_def)

text \<open>
  Claim C10. For every column type, \<^verbatim>\<open>date\<close>, \<^verbatim>\<open>html\<close> and \<^verbatim>\<open>image\<close> included,
  when the value of the field is absent or falsy \<^verbatim>\<open>_getValue\<close> returns the fallback as
  a plain value: the test comes before the dispatch on the type, so the result does not
  depend on the calendar library or on the date format, and it is neither a value handed
  to \<^verbatim>\<open>unsafeStatic\<close> nor an image. Nothing is assumed of the column's type.
\<close>

theorem getValue_fallback_before_dispatch:
  assumes "js_get E header (JStr ''key'') = Returns k" and "js_get E row k = Returns v"
    and "\<not> truthy v" and "js_get E header (JStr ''default'') = Returns d"
  shows "getValue E L this row header = Returns (Plain (if nullish d then JStr [] else d))
         \<and> getValue E L' this' row header = getValue E L this row header
         \<and> (\<forall>u. getValue E L this row header \<noteq> Returns (UnsafeStatic u))
         \<and> (\<forall>u. getValue E L this row header \<noteq> Returns (Img u))"
  using assms by (simp add: getValue_falsy)

theorem getValue_fallback_before_dispatch_witness:
  "getValue plain_read (moment_lib 0) blank (JObj [(''x'', JNum 0)])
       (JObj [(''key'', JStr ''x''), (''type'', JStr ''date''), (''default'', JStr ''never'')])
     = Returns (Plain (JStr ''never''))
   \<and> getValue plain_read (moment_lib 0) blank (JObj [(''x'', JStr [])])
       (JObj [(''key'', JStr ''x''), (''type'', JStr ''html''), (''default'', JStr ''<b>none</b>'')])
     = Returns (Plain (JStr ''<b>none</b>''))
   \<and> getValue plain_read (moment_lib 0) blank (JObj [])
       (JObj [(''key'', JStr ''x''), (''type'', JStr ''image''), (''default'', JStr ''none.png'')])
     = Returns (Plain (JStr ''none.png''))
   \<and> getValue plain_read (moment_lib 0) blank (JObj [])
       (JObj [(''key'', JStr ''x''), (''type'', JStr ''image'')])
     = Returns (Plain (JStr []))"
  using
    getValue_fallback_before_dispatch [of plain_read
      "JObj [(''key'', JStr ''x''), (''type'', JStr ''date''), (''default'', JStr ''never'')]"
      "JStr ''x''" "JObj [(''x'', JNum 0)]" "JNum 0" "JStr ''never''"
      "moment_lib 0" blank "moment_lib 0" blank]
    getValue_fallback_before_dispatch [of plain_read
      "JObj [(''key'', JStr ''x''), (''type'', JStr ''html''), (''default'', JStr ''<b>none</b>'')]"
      "JStr ''x''" "JObj [(''x'', JStr [])]" "JStr []" "JStr ''<b>none</b>''"
      "moment_lib 0" blank "moment_lib 0" blank]
    getValue_fallback_before_dispatch [of plain_read
      "JObj [(''key'', JStr ''x''), (''type'', JStr ''image''), (''default'', JStr ''none.png'')]"
      "JStr ''x''" "JObj []" "JUndefined" "JStr ''none.png''"
      "moment_lib 0" blank "moment_lib 0" blank]
    getValue_fallback_before_dispatch [of plain_read
      "JObj [(''key'', JStr ''x''), (''type'', JStr ''image'')]"
      "JStr ''x''" "JObj []" "JUndefined" "JUndefined"
      "moment_lib 0" blank "moment_lib 0" blank]
  by (simp add: js_get_def inherited_names_def)


section \<open>The value formatter: dates\<close>

text \<open>
  Claim C5, amended. For a column of type \<^verbatim>\<open>date\<close> and a truthy raw value,
  \<^verbatim>\<open>_getValue\<close> returns what the calendar library renders with the configured format
  when one is set and not empty, and its ISO-8601 string otherwise. The raw value
  \<^verbatim>\<open>"2024-01-15T00:00:00Z"\<close> with no format gives \<^verbatim>\<open>"2024-01-15T00:00:00.000Z"\<close>
  on every host. With the format \<^verbatim>\<open>"YYYY/MM/DD"\<close> it gives the date of that instant in
  the host's local time: \<^verbatim>\<open>"2024/01/15"\<close> where the offset from UTC is zero or
  positive, \<^verbatim>\<open>"2024/01/14"\<close> where it is negative. The claim as stated, with
  \<^verbatim>\<open>"2024/01/15"\<close> on every host, fails five hours west of Greenwich.
\<close>

theorem getValue_date:
  "(js_get E header (JStr ''key'') = Returns k \<and> js_get E row k = Returns v \<and> truthy v
      \<and> js_get E header (JStr ''type'') = Returns (JStr ''date'')
    \<longrightarrow> getValue E L this row header =
          and_then (case dateFormat this of
                      None \<Rightarrow> lib_toISOString L v
                    | Some f \<Rightarrow> if f \<noteq> [] then lib_format L v f else lib_toISOString L v)
                   (\<lambda>s. Returns (Plain s)))
   \<and> getValue plain_read (moment_lib tz) (this\<lparr>dateFormat := None\<rparr>) date_row date_column
       = Returns (Plain (JStr ''2024-01-15T00:00:00.000Z''))
   \<and> (0 \<le> tz \<and> tz < 1440
      \<longrightarrow> getValue plain_read (moment_lib tz) (this\<lparr>dateFormat := Some ''YYYY/MM/DD''\<rparr>)
            date_row date_column
          = Returns (Plain (JStr ''2024/01/15'')))
   \<and> (- 1440 \<le> tz \<and> tz < 0
      \<longrightarrow> getValue plain_read (moment_lib tz) (this\<lparr>dateFormat := Some ''YYYY/MM/DD''\<rparr>)
            date_row date_column
          = Returns (Plain (JStr ''2024/01/14'')))"
proof (intro conjI impI)
  assume "js_get E header (JStr ''key'') = Returns k \<and> js_get E row k = Returns v \<and> truthy v
      \<and> js_get E header (JStr ''type'') = Returns (JStr ''date'')"
  then show "getValue E L this row header =
          and_then (case dateFormat this of
                      None \<Rightarrow> lib_toISOString L v
                    | Some f \<Rightarrow> if f \<noteq> [] then lib_format L v f else lib_toISOString L v)
                   (\<lambda>s. Returns (Plain s))"
    by (simp add: getValue_date_general)
next
  show "getValue plain_read (moment_lib tz) (this\<lparr>dateFormat := None\<rparr>) date_row date_column
       = Returns (Plain (JStr ''2024-01-15T00:00:00.000Z''))"
    using getValue_date_general [OF date_example_reads(1,2) _ date_example_reads(3),
        of "moment_lib tz" "this\<lparr>dateFormat := None\<rparr>"]
    by (simp add: moment_lib_def iso_example)
next
  assume "0 \<le> tz \<and> tz < 1440"
  then show "getValue plain_read (moment_lib tz) (this\<lparr>dateFormat := Some ''YYYY/MM/DD''\<rparr>)
               date_row date_column
          = Returns (Plain (JStr ''2024/01/15''))"
    using getValue_date_general [OF date_example_reads(1,2) _ date_example_reads(3),
        of "moment_lib tz" "this\<lparr>dateFormat := Some ''YYYY/MM/DD''\<rparr>"]
    by (simp add: moment_lib_def format_east)
next
  assume "- 1440 \<le> tz \<and> tz < 0"
  then show "getValue plain_read (moment_lib tz) (this\<lparr>dateFormat := Some ''YYYY/MM/DD''\<rparr>)
               date_row date_column
          = Returns (Plain (JStr ''2024/01/14''))"
    using getValue_date_general [OF date_example_reads(1,2) _ date_example_reads(3),
        of "moment_lib tz" "this\<lparr>dateFormat := Some ''YYYY/MM/DD''\<rparr>"]
    by (simp add: moment_lib_def format_west)
qed

theorem getValue_date_witness:
  "getValue plain_read (moment_lib 0) (blank\<lparr>dateFormat := None\<rparr>) date_row date_column
       = Returns (Plain (JStr ''2024-01-15T00:00:00.000Z''))
   \<and> getValue plain_read (moment_lib 0) (blank\<lparr>dateFormat := Some ''YYYY/MM/DD''\<rparr>)
         date_row date_column
       = Returns (Plain (JStr ''2024/01/15''))
   \<and> getValue plain_read (moment_lib (- 300)) (blank\<lparr>dateFormat := Some ''YYYY/MM/DD''\<rparr>)
         date_row date_column
       = Returns (Plain (JStr ''2024/01/14''))
   \<and> getValue plain_read (moment_lib 0) (blank\<lparr>dateFormat := Some []\<rparr>) date_row date_column
       = Returns (Plain (JStr ''2024-01-15T00:00:00.000Z''))"
  using getValue_date [where E = plain_read and header = date_column and k = "JStr ''when''"
      and row = date_row and v = "JStr ''2024-01-15T00:00:00Z''" and L = "moment_lib 0"
      and this = "blank\<lparr>dateFormat := Some []\<rparr>" and tz = 0]
    getValue_date [where this = blank and tz = 0]
    getValue_date [where this = blank and tz = "- 300"]
  by (simp add: date_example_reads moment_lib_def iso_example)

theorem getValue_date_counterexample:
  "getValue plain_read (moment_lib (- 300)) (blank\<lparr>dateFormat := Some ''YYYY/MM/DD''\<rparr>)
     date_row date_column
     \<noteq> Returns (Plain (JStr ''2024/01/15''))"
  using getValue_date_general [OF date_example_reads(1,2) _ date_example_reads(3),
        of "moment_lib (- 300)" "blank\<lparr>dateFormat := Some ''YYYY/MM/DD''\<rparr>"]
  by (simp add: moment_lib_def format_west)


section \<open>The render planner: layout, header, footer and empty state\<close>

lemma map_out_map:
  "(\<And>x. x \<in> set xs \<Longrightarrow> f x = Returns (g x)) \<Longrightarrow> map_out f xs = Returns (map g xs)"
  by (induction xs) simp_all

lemma map_out_total:
  "(\<And>x. x \<in> set xs \<Longrightarrow> returns (f x)) \<Longrightarrow>
     \<exists>ys. map_out f xs = Returns ys \<and> length ys = length xs"
proof (induction xs)
  case Nil
  then show ?case by simp
next
  case (Cons x xs)
  then have "returns (f x)" by simp
  then obtain y where y: "f x = Returns y" by (cases "f x") simp_all
  from Cons obtain ys where "map_out f xs = Returns ys" "length ys = length xs" by auto
  with y show ?case by simp
qed

lemma returns_iff: "returns r \<longleftrightarrow> (\<exists>x. r = Returns x)"
  by (cases r) simp_all

lemma read_hasHiddenRows [simp]: "read (this\<lparr>hasHiddenRows := h\<rparr>) v = read this v"
  by (induction v) simp_all

lemma read_gridtemplate [simp]: "read (this\<lparr>gridtemplate := g\<rparr>) v = read this v"
  by (induction v) simp_all

lemma format_date_frame [simp]:
  "format_date L (this\<lparr>hasHiddenRows := h\<rparr>) = format_date L this"
  "format_date L (this\<lparr>gridtemplate := g\<rparr>) = format_date L this"
  by (simp_all add: format_date_def fun_eq_iff)

lemma getValue_frame [simp]:
  "getValue E L (this\<lparr>hasHiddenRows := h\<rparr>) = getValue E L this"
  "getValue E L (this\<lparr>gridtemplate := g\<rparr>) = getValue E L this"
  by (simp_all add: getValue_def fun_eq_iff cong: if_cong)

lemma getHeaders_ok:
  assumes "read this (schema this) = JArr S" and "list_all (header_ok E) S"
  shows "getHeaders E this =
           Returns ((if hasHiddenRows this then [Cell ''th'' [] False Empty] else [])
                    @ map (\<lambda>h. Cell ''th'' [] False (Hole (Plain (column_name E h)))) S)"
proof -
  have "map_out (\<lambda>h. and_then (js_get E h (JStr ''name'')) (\<lambda>n.
                        Returns (Cell ''th'' [] False (Hole (Plain n))))) S
        = Returns (map (\<lambda>h. Cell ''th'' [] False (Hole (Plain (column_name E h)))) S)"
  proof (rule map_out_map)
    fix h assume "h \<in> set S"
    with assms(2) have "returns (js_get E h (JStr ''name''))"
      by (simp add: list_all_iff header_ok_def)
    then obtain n where "js_get E h (JStr ''name'') = Returns n"
      by (auto simp: returns_iff)
    then show "and_then (js_get E h (JStr ''name'')) (\<lambda>n.
                 Returns (Cell ''th'' [] False (Hole (Plain n))))
               = Returns (Cell ''th'' [] False (Hole (Plain (column_name E h))))"
      by (simp add: column_name_def)
  qed
  then show ?thesis
    using assms(1) by (simp add: getHeaders_def)
qed

lemma value_cells_ok:
  assumes "read this (schema this) = JArr S" and "list_all (cell_ok E L this row) S"
  shows "\<exists>cs. value_cells E L this cls row = Returns cs \<and> length cs = length S"
proof -
  have "\<exists>cs. map_out (\<lambda>header. and_then (getValue E L this row header) (\<lambda>d.
                            Returns (Cell ''td'' cls False (Hole d)))) S = Returns cs
             \<and> length cs = length S"
  proof (rule map_out_total)
    fix h assume "h \<in> set S"
    with assms(2) have "returns (getValue E L this row h)"
      by (simp add: list_all_iff cell_ok_def)
    then show "returns (and_then (getValue E L this row h) (\<lambda>d.
                            Returns (Cell ''td'' cls False (Hole d))))"
      by (auto simp: returns_iff)
  qed
  then show ?thesis
    using assms(1) by (simp add: value_cells_def)
qed

lemma row_cells_ok:
  assumes "read this (schema this) = JArr S" and "row_ok E L this S row"
  shows "returns (row_cells E L this row)"
proof (cases "isArray row")
  case True
  then obtain subs where row: "row = JArr subs" by (cases row) simp_all
  have "\<exists>css. map_out (subrow_cells E L this) (enumerate 0 subs) = Returns css
              \<and> length css = length (enumerate 0 subs)"
  proof (rule map_out_total)
    fix p assume p: "p \<in> set (enumerate 0 subs)"
    obtain i s where ps: "p = (i, s)" by (cases p)
    with p have "s \<in> set subs" by (auto simp: in_set_enumerate_eq)
    with assms(2) row have "list_all (cell_ok E L this s) S"
      by (simp add: row_ok_def list_all_iff)
    then obtain cs where
      "value_cells E L this (if i \<noteq> 0 then [''subrow'', ''hidden''] else []) s = Returns cs"
      using value_cells_ok [OF assms(1)] by blast
    then show "returns (subrow_cells E L this p)"
      by (simp add: subrow_cells_def ps)
  qed
  then show ?thesis
    by (auto simp: row_cells_def row)
next
  case False
  with assms(2) have "list_all (cell_ok E L this row) S"
    by (cases row) (simp_all add: row_ok_def)
  then obtain cs where "value_cells E L this [] row = Returns cs"
    using value_cells_ok [OF assms(1)] by blast
  with False show ?thesis
    by (cases row) (simp_all add: row_cells_def)
qed

lemma getRows_ok:
  assumes "read this (data this) = JArr D" and "read this (schema this) = JArr S"
    and "list_all (row_ok E L this S) D"
  shows "\<exists>rows. getRows E L this = Returns rows
           \<and> (if D = [] then rows = [nodata_row] else length rows = length D)"
proof (cases "D = []")
  case True
  then show ?thesis using assms(1) by (simp add: getRows_def)
next
  case False
  have "\<exists>rows. map_out (row_cells E L this) D = Returns rows \<and> length rows = length D"
  proof (rule map_out_total)
    fix r assume "r \<in> set D"
    with assms(3) have "row_ok E L this S r" by (simp add: list_all_iff)
    with assms(2) show "returns (row_cells E L this r)"
      by (rule row_cells_ok)
  qed
  with False show ?thesis using assms(1) by (simp add: getRows_def)
qed

lemma cell_ok_frame [simp]:
  "cell_ok E L (this\<lparr>hasHiddenRows := h\<rparr>) = cell_ok E L this"
  "cell_ok E L (this\<lparr>gridtemplate := g\<rparr>) = cell_ok E L this"
  by (simp_all add: cell_ok_def fun_eq_iff)

lemma row_ok_frame [simp]:
  "row_ok E L (this\<lparr>hasHiddenRows := h\<rparr>) = row_ok E L this"
  "row_ok E L (this\<lparr>gridtemplate := g\<rparr>) = row_ok E L this"
  by (simp_all add: row_ok_def fun_eq_iff split: jsval.splits)

lemma render_ok:
  assumes "read this (data this) = JArr D" and "read this (schema this) = JArr S"
    and "well_formed E L this S D"
  shows "\<exists>rows. render E L this =
           Returns (this\<lparr>hasHiddenRows := list_ex isArray D,
                         gridtemplate := (if list_ex isArray D
                                          then ''1rem repeat('' @ show_nat (length S) @ '', 1fr)''
                                          else ''repeat('' @ show_nat (length S) @ '', 1fr)'')\<rparr>,
                    \<lparr>thead = (if list_ex isArray D then [Cell ''th'' [] False Empty] else [])
                              @ map (\<lambda>h. Cell ''th'' [] False (Hole (Plain (column_name E h)))) S,
                     tbody = rows, tfoot_records = JNum (of_nat (length D))\<rparr>)
           \<and> (if D = [] then rows = [nodata_row] else length rows = length D)"
proof -
  let ?g = "if list_ex isArray D
            then ''1rem repeat('' @ show_nat (length S) @ '', 1fr)''
            else ''repeat('' @ show_nat (length S) @ '', 1fr)''"
  let ?this2 = "this\<lparr>hasHiddenRows := list_ex isArray D, gridtemplate := ?g\<rparr>"
  have d: "read ?this2 (data ?this2) = JArr D" and s: "read ?this2 (schema ?this2) = JArr S"
    using assms(1,2) by simp_all
  have h: "getHeaders E ?this2 =
           Returns ((if list_ex isArray D then [Cell ''th'' [] False Empty] else [])
                @ map (\<lambda>h. Cell ''th'' [] False (Hole (Plain (column_name E h)))) S)"
    using getHeaders_ok [OF s] assms(3) by (simp add: well_formed_def)
  have "list_all (row_ok E L ?this2 S) D"
    using assms(3) by (simp add: well_formed_def)
  from getRows_ok [OF d s this] obtain rows where r: "getRows E L ?this2 = Returns rows"
    and n: "if D = [] then rows = [nodata_row] else length rows = length D"
    by blast
  have "render E L this =
           Returns (?this2,
                    \<lparr>thead = (if list_ex isArray D then [Cell ''th'' [] False Empty] else [])
                              @ map (\<lambda>h. Cell ''th'' [] False (Hole (Plain (column_name E h)))) S,
                     tbody = rows, tfoot_records = JNum (of_nat (length D))\<rparr>)"
  proof (cases "list_ex isArray D")
    case True
    with assms(1,2) h r show ?thesis
      by (simp add: render_def Let_def)
  next
    case False
    with assms(1,2) h r show ?thesis
      by (simp add: render_def Let_def)
  qed
  with n show ?thesis by blast
qed

lemma example_reads:
  "read example (data example) = JArr example_data"
  "read example (schema example) = JArr example_schema"
  by code_simp+

lemma example_well_formed:
  "well_formed plain_read (moment_lib 0) example example_schema example_data"
  by code_simp

lemma headed_table_reads:
  "read headed_table (data headed_table) = JArr []"
  "read headed_table (schema headed_table) = JArr example_schema"
  by code_simp+

lemma example_schema_ok: "list_all (header_ok plain_read) example_schema"
  by code_simp

lemma css_layout:
  "css_of_tracks ((if b then [Len ''1rem''] else []) @ [Repeat n ''1fr'']) =
     (if b then ''1rem repeat('' @ show_nat n @ '', 1fr)''
      else ''repeat('' @ show_nat n @ '', 1fr)'')"
  by simp

lemma column_count_layout:
  "column_count ((if b then [Len ''1rem''] else []) @ [Repeat n ''1fr'']) =
     n + (if b then 1 else 0)"
  by (simp add: column_count_def)

text \<open>
  Claim C2. For all schema \<open>S\<close> and data \<open>D\<close>, \<^verbatim>\<open>render\<close> sets
  \<^verbatim>\<open>hasHiddenRows\<close> to true if and only if at least one top-level element of \<open>D\<close> is
  an array, and the value it gives the style property \<^verbatim>\<open>--gridtemplate\<close> is the CSS of
  \<open>length S\<close> columns, after one narrow column of \<^verbatim>\<open>1rem\<close> exactly when
  \<^verbatim>\<open>hasHiddenRows\<close> is true: the number of columns is \<open>length S\<close> plus one in that
  case. The hypotheses are that \<^verbatim>\<open>data\<close> and \<^verbatim>\<open>schema\<close> hold arrays and that no
  property read of the rendering throws; the rendering then returns.
\<close>

theorem render_layout:
  assumes "read this (data this) = JArr D" and "read this (schema this) = JArr S"
    and "well_formed E L this S D"
  shows "\<exists>this' tree. render E L this = Returns (this', tree)
           \<and> hasHiddenRows this' = (\<exists>r\<in>set D. isArray r)
           \<and> gridtemplate this' =
               css_of_tracks ((if hasHiddenRows this' then [Len ''1rem''] else [])
                              @ [Repeat (length S) ''1fr''])
           \<and> column_count ((if hasHiddenRows this' then [Len ''1rem''] else [])
                            @ [Repeat (length S) ''1fr''])
               = length S + (if hasHiddenRows this' then 1 else 0)"
proof -
  from render_ok [OF assms] obtain rows where
    "render E L this =
       Returns (this\<lparr>hasHiddenRows := list_ex isArray D,
                     gridtemplate := (if list_ex isArray D
                                      then ''1rem repeat('' @ show_nat (length S) @ '', 1fr)''
                                      else ''repeat('' @ show_nat (length S) @ '', 1fr)'')\<rparr>,
                \<lparr>thead = (if list_ex isArray D then [Cell ''th'' [] False Empty] else [])
                          @ map (\<lambda>h. Cell ''th'' [] False (Hole (Plain (column_name E h)))) S,
                 tbody = rows, tfoot_records = JNum (of_nat (length D))\<rparr>)"
    by blast
  then show ?thesis
    by (simp add: css_layout column_count_layout list_ex_iff del: css_of_tracks.simps)
qed

theorem render_layout_witness:
  "\<exists>this' tree. render plain_read (moment_lib 0) example = Returns (this', tree)
     \<and> hasHiddenRows this' \<and> gridtemplate this' = ''1rem repeat(2, 1fr)''
     \<and> column_count [Len ''1rem'', Repeat 2 ''1fr''] = 3"
proof -
  have "\<exists>r\<in>set example_data. isArray r"
    by (simp add: example_data_def)
  moreover have "length example_schema = 2"
    by (simp add: example_schema_def)
  moreover have "show_nat 2 = ''2''"
    by code_simp
  ultimately show ?thesis
    using render_layout [OF example_reads example_well_formed]
    by (auto simp: column_count_def)
qed

text \<open>
  Claim C3. For all schema \<open>S\<close> and data \<open>D\<close>, the rendered header row has exactly
  \<open>length S\<close> header cells, one for each schema entry, in the order of the schema and
  holding its name, whatever \<open>D\<close> holds. The row is these cells, after one empty cell
  when \<open>D\<close> has an array among its elements (the cell over the column of the
  expanders, which the specification calls a placeholder, not a header cell).
\<close>

theorem render_header_cells:
  assumes "read this (data this) = JArr D" and "read this (schema this) = JArr S"
    and "well_formed E L this S D"
  shows "\<exists>this' tree. render E L this = Returns (this', tree)
           \<and> header_cells tree
               = map (\<lambda>h. Cell ''th'' [] False (Hole (Plain (column_name E h)))) S
           \<and> length (header_cells tree) = length S
           \<and> thead tree = (if \<exists>r\<in>set D. isArray r then [Cell ''th'' [] False Empty] else [])
                           @ header_cells tree"
proof -
  from render_ok [OF assms] obtain rows where
    "render E L this =
       Returns (this\<lparr>hasHiddenRows := list_ex isArray D,
                     gridtemplate := (if list_ex isArray D
                                      then ''1rem repeat('' @ show_nat (length S) @ '', 1fr)''
                                      else ''repeat('' @ show_nat (length S) @ '', 1fr)'')\<rparr>,
                \<lparr>thead = (if list_ex isArray D then [Cell ''th'' [] False Empty] else [])
                          @ map (\<lambda>h. Cell ''th'' [] False (Hole (Plain (column_name E h)))) S,
                 tbody = rows, tfoot_records = JNum (of_nat (length D))\<rparr>)"
    by blast
  moreover have "filter (\<lambda>c. inner c \<noteq> Empty)
                   (map (\<lambda>h. Cell ''th'' [] False (Hole (Plain (column_name E h)))) S)
                 = map (\<lambda>h. Cell ''th'' [] False (Hole (Plain (column_name E h)))) S"
    by (induction S) simp_all
  ultimately show ?thesis
    by (simp add: header_cells_def list_ex_iff)
qed

theorem render_header_cells_witness:
  "\<exists>this' tree. render plain_read (moment_lib 0) example = Returns (this', tree)
     \<and> header_cells tree = [Cell ''th'' [] False (Hole (Plain (JStr ''Id''))),
                            Cell ''th'' [] False (Hole (Plain (JStr ''When'')))]
     \<and> thead tree = Cell ''th'' [] False Empty # header_cells tree"
proof -
  have "\<exists>r\<in>set example_data. isArray r"
    by (simp add: example_data_def)
  moreover have "map (\<lambda>h. Cell ''th'' [] False (Hole (Plain (column_name plain_read h))))
                   example_schema
                 = [Cell ''th'' [] False (Hole (Plain (JStr ''Id''))),
                    Cell ''th'' [] False (Hole (Plain (JStr ''When'')))]"
    by code_simp
  ultimately show ?thesis
    using render_header_cells [OF example_reads example_well_formed]
    by auto
qed

text \<open>
  Claim C6. For all data \<open>D\<close>, the footer of the rendered table reports
  \<open>length D\<close>, the number of top-level entries of \<open>D\<close>: a grouped row counts for
  one, however many sub-rows it holds.
\<close>

theorem render_footer_count:
  assumes "read this (data this) = JArr D" and "read this (schema this) = JArr S"
    and "well_formed E L this S D"
  shows "\<exists>this' tree. render E L this = Returns (this', tree)
           \<and> tfoot_records tree = JNum (of_nat (length D))"
proof -
  from render_ok [OF assms] obtain rows where
    "render E L this =
       Returns (this\<lparr>hasHiddenRows := list_ex isArray D,
                     gridtemplate := (if list_ex isArray D
                                      then ''1rem repeat('' @ show_nat (length S) @ '', 1fr)''
                                      else ''repeat('' @ show_nat (length S) @ '', 1fr)'')\<rparr>,
                \<lparr>thead = (if list_ex isArray D then [Cell ''th'' [] False Empty] else [])
                          @ map (\<lambda>h. Cell ''th'' [] False (Hole (Plain (column_name E h)))) S,
                 tbody = rows, tfoot_records = JNum (of_nat (length D))\<rparr>)"
    by blast
  then show ?thesis by simp
qed

theorem render_footer_count_witness:
  "\<exists>this' tree. render plain_read (moment_lib 0) example = Returns (this', tree)
     \<and> tfoot_records tree = JNum 3"
proof -
  have "length example_data = 3"
    by (simp add: example_data_def)
  then show ?thesis
    using render_footer_count [OF example_reads example_well_formed]
    by auto
qed

text \<open>
  Claim C8. When the data is the empty array, the body of the rendered table is exactly
  one row, the one that says there is no data to show, and no data row.
\<close>

theorem render_empty_data:
  assumes "read this (data this) = JArr []" and "read this (schema this) = JArr S"
    and "list_all (header_ok E) S"
  shows "getRows E L this = Returns [nodata_row]
         \<and> (\<exists>this' tree. render E L this = Returns (this', tree)
                \<and> tbody tree = [nodata_row])"
proof -
  have "getRows E L this = Returns [nodata_row]"
    using assms(1) by (simp add: getRows_def)
  moreover have "well_formed E L this S []"
    using assms(3) by (simp add: well_formed_def)
  from render_ok [OF assms(1,2) this]
  have "\<exists>this' tree. render E L this = Returns (this', tree) \<and> tbody tree = [nodata_row]"
    by auto
  ultimately show ?thesis by blast
qed

theorem render_empty_data_witness:
  "getRows plain_read (moment_lib 0) headed_table
     = Returns [[Cell ''td'' [''nodata''] False (Static ''There is no data to show'')]]
   \<and> (\<exists>this' tree. render plain_read (moment_lib 0) headed_table = Returns (this', tree)
        \<and> tbody tree = [[Cell ''td'' [''nodata''] False (Static ''There is no data to show'')]])"
  using render_empty_data [OF headed_table_reads example_schema_ok, of "moment_lib 0"]
  by (simp add: nodata_row_def)


section \<open>The mutation watcher and the assignments\<close>







lemma constructor_fields:
  "data (constructor this) = Watched (next_id this) (Ref (next_addr this)) ''data-change''"
  "schema (constructor this)
     = Watched (Suc (next_id this)) (Ref (Suc (next_addr this))) ''schema-change''"
  "heap (constructor this) (next_addr this) = JArr []"
  "heap (constructor this) (Suc (next_addr this)) = JArr []"
  "next_id (constructor this) = Suc (Suc (next_id this))"
  by (simp_all add: constructor_def alloc_def watchObject_def)

lemma truthy_val_frame [simp]:
  "truthy_val (this\<lparr>data := d\<rparr>) v = truthy_val this v"
  "truthy_val (this\<lparr>schema := d\<rparr>) v = truthy_val this v"
  by (cases v; simp)+

lemma assign_data_cases:
  "assign_data v this =
     (if same_value v (data this) then this
      else if truthy_val this v
      then this\<lparr>data := Watched (next_id this) v ''data-change'', next_id := Suc (next_id this)\<rparr>
      else this\<lparr>data := v\<rparr>)"
  by (simp add: assign_data_def willUpdate_def watchObject_def Let_def)

lemma assign_schema_cases:
  "assign_schema v this =
     (if same_value v (schema this) then this
      else if truthy_val this v
      then this\<lparr>schema := Watched (next_id this) v ''schema-change'',
                next_id := Suc (next_id this)\<rparr>
      else this\<lparr>schema := v\<rparr>)"
  by (simp add: assign_schema_def willUpdate_def watchObject_def Let_def)

lemma object_value_truthy: "object_value v \<Longrightarrow> truthy v"
  by (cases v) simp_all

lemma holds_object_truthy: "holds_object this v \<Longrightarrow> truthy_val this v"
  by (cases v) (simp_all add: object_value_truthy)

lemma same_value_eq: "same_value v w \<Longrightarrow> v = w"
  by (simp add: same_value_def)

lemma same_value_ref [simp]: "same_value (Ref a) w \<longleftrightarrow> Ref a = w"
  by (simp add: same_value_def)

lemma ids_below_mono: "ids_below n v \<Longrightarrow> n \<le> m \<Longrightarrow> ids_below m v"
  by (auto simp: ids_below_def list_all_iff)

lemma ids_below_fresh: "ids_below n v \<Longrightarrow> n \<notin> set (wrapper_ids v)"
  by (auto simp: ids_below_def list_all_iff)

lemma ids_fresh_assign_data:
  assumes "ids_fresh this" and "ids_below (next_id this) v"
  shows "ids_fresh (assign_data v this)"
proof -
  have "ids_below (Suc (next_id this)) v" "ids_below (Suc (next_id this)) (schema this)"
    using assms by (auto simp: ids_fresh_def intro: ids_below_mono)
  then show ?thesis
    using assms by (auto simp: assign_data_cases ids_fresh_def ids_below_def)
qed

lemma ids_fresh_assign_schema:
  assumes "ids_fresh this" and "ids_below (next_id this) v"
  shows "ids_fresh (assign_schema v this)"
proof -
  have "ids_below (Suc (next_id this)) v" "ids_below (Suc (next_id this)) (data this)"
    using assms by (auto simp: ids_fresh_def intro: ids_below_mono)
  then show ?thesis
    using assms by (auto simp: assign_schema_cases ids_fresh_def ids_below_def)
qed

lemma ids_fresh_constructor: "ids_fresh (constructor this)"
  by (simp add: ids_fresh_def ids_below_def constructor_fields)

lemma toggle_mem: "s \<in> set (toggle t cs) \<longleftrightarrow> (if s = t then t \<notin> set cs else s \<in> set cs)"
  by (auto simp: toggle_def)

lemma toggle_subrow_sel [simp]:
  "tag (toggle_subrow x) = tag x" "onclick (toggle_subrow x) = onclick x"
  "inner (toggle_subrow x) = inner x"
  "classes (toggle_subrow x) =
     (if ''subrow'' \<in> set (classes x) then toggle ''hidden'' (classes x) else classes x)"
  by (simp_all add: toggle_subrow_def toggle_class_def)

lemma toggle_class_sel [simp]:
  "tag (toggle_class t x) = tag x" "onclick (toggle_class t x) = onclick x"
  "inner (toggle_class t x) = inner x" "classes (toggle_class t x) = toggle t (classes x)"
  by (simp_all add: toggle_class_def)

lemma handle_other_rows:
  "k \<noteq> r \<Longrightarrow> tbody (handleToggleExpandClick r c tree) ! k = tbody tree ! k"
  by (simp add: handleToggleExpandClick_def Let_def)

lemma handle_frame:
  "thead (handleToggleExpandClick r c tree) = thead tree"
  "tfoot_records (handleToggleExpandClick r c tree) = tfoot_records tree"
  "length (tbody (handleToggleExpandClick r c tree)) = length (tbody tree)"
  by (simp_all add: handleToggleExpandClick_def Let_def)

lemma handle_row:
  assumes "r < length (tbody tree)" and "c < length (tbody tree ! r)"
  shows "tbody (handleToggleExpandClick r c tree) ! r =
           (map toggle_subrow (tbody tree ! r))
             [c := toggle_class ''expanded'' (toggle_subrow (tbody tree ! r ! c))]"
  using assms by (simp add: handleToggleExpandClick_def Let_def)

lemma handle_cell:
  assumes "r < length (tbody tree)" and "c < length (tbody tree ! r)"
    and "j < length (tbody tree ! r)"
  shows "tbody (handleToggleExpandClick r c tree) ! r ! j =
           (if j = c then toggle_class ''expanded'' (toggle_subrow (tbody tree ! r ! j))
            else toggle_subrow (tbody tree ! r ! j))"
  using assms by (simp add: handle_row nth_list_update)





text \<open>
  Claim C7, amended. After an assignment to \<^verbatim>\<open>data\<close> or \<^verbatim>\<open>schema\<close> of an array or
  object that the property does not hold already, the stored value is a new wrapper of
  the assigned value, made with \<^verbatim>\<open>data-change\<close> or \<^verbatim>\<open>schema-change\<close>: its identity
  is that of no wrapper stored before, and nothing else of the state changes but the
  counter of identities, so the wrapper held before is replaced, not changed. The
  constructor stores a new wrapper of a new empty array in each property. A falsy value
  (\<^verbatim>\<open>null\<close>, \<^verbatim>\<open>undefined\<close>, the empty string, ...) is stored as it is, unwrapped, by
  the test \<^verbatim>\<open>&& this.data\<close> of \<^verbatim>\<open>willUpdate\<close>: the claim as stated, for every
  assignment, fails at \<^verbatim>\<open>el.data = null\<close>.
\<close>

theorem assignment_wraps_objects:
  "(holds_object this v \<and> \<not> same_value v (data this)
      \<longrightarrow> assign_data v this
          = this\<lparr>data := Watched (next_id this) v ''data-change'',
                 next_id := Suc (next_id this)\<rparr>)
   \<and> (holds_object this v \<and> \<not> same_value v (schema this)
      \<longrightarrow> assign_schema v this
          = this\<lparr>schema := Watched (next_id this) v ''schema-change'',
                 next_id := Suc (next_id this)\<rparr>)
   \<and> (\<not> truthy p
      \<longrightarrow> data (assign_data (Prim p) this) = Prim p
          \<and> schema (assign_schema (Prim p) this) = Prim p)
   \<and> (ids_fresh this
      \<longrightarrow> next_id this \<notin> set (wrapper_ids (data this))
          \<and> next_id this \<notin> set (wrapper_ids (schema this)))
   \<and> (ids_fresh this \<and> ids_below (next_id this) v
      \<longrightarrow> ids_fresh (assign_data v this) \<and> ids_fresh (assign_schema v this))
   \<and> data (constructor this) = Watched (next_id this) (Ref (next_addr this)) ''data-change''
   \<and> schema (constructor this)
     = Watched (Suc (next_id this)) (Ref (Suc (next_addr this))) ''schema-change''
   \<and> read (constructor this) (data (constructor this)) = JArr []
   \<and> read (constructor this) (schema (constructor this)) = JArr []
   \<and> ids_fresh (constructor this)"
proof (intro conjI impI)
  assume "holds_object this v \<and> \<not> same_value v (data this)"
  then show "assign_data v this
          = this\<lparr>data := Watched (next_id this) v ''data-change'',
                 next_id := Suc (next_id this)\<rparr>"
    by (simp add: assign_data_cases holds_object_truthy)
next
  assume "holds_object this v \<and> \<not> same_value v (schema this)"
  then show "assign_schema v this
          = this\<lparr>schema := Watched (next_id this) v ''schema-change'',
                 next_id := Suc (next_id this)\<rparr>"
    by (simp add: assign_schema_cases holds_object_truthy)
next
  assume "\<not> truthy p"
  then show "data (assign_data (Prim p) this) = Prim p"
    and "schema (assign_schema (Prim p) this) = Prim p"
    by (auto simp: assign_data_cases assign_schema_cases dest: same_value_eq)
next
  assume "ids_fresh this"
  then show "next_id this \<notin> set (wrapper_ids (data this))"
    and "next_id this \<notin> set (wrapper_ids (schema this))"
    by (simp_all add: ids_fresh_def ids_below_fresh)
next
  assume "ids_fresh this \<and> ids_below (next_id this) v"
  then show "ids_fresh (assign_data v this)" and "ids_fresh (assign_schema v this)"
    by (simp_all add: ids_fresh_assign_data ids_fresh_assign_schema)
next
  show "data (constructor this) = Watched (next_id this) (Ref (next_addr this)) ''data-change''"
    and "schema (constructor this)
     = Watched (Suc (next_id this)) (Ref (Suc (next_addr this))) ''schema-change''"
    and "read (constructor this) (data (constructor this)) = JArr []"
    and "read (constructor this) (schema (constructor this)) = JArr []"
    by (simp_all add: constructor_fields)
  show "ids_fresh (constructor this)"
    by (rule ids_fresh_constructor)
qed

lemma blank_counters: "next_id blank = 0" "next_addr blank = 0"
  by (simp_all add: blank_def)

lemma fresh_table_facts:
  "data (constructor blank) = Watched 0 (Ref 0) ''data-change''"
  "schema (constructor blank) = Watched 1 (Ref 1) ''schema-change''"
  "next_id (constructor blank) = 2"
  by code_simp+

lemma new_array_facts:
  "next_id (snd (alloc (JArr []) (constructor blank))) = 2"
  "data (snd (alloc (JArr []) (constructor blank))) = Watched 0 (Ref 0) ''data-change''"
  "schema (snd (alloc (JArr []) (constructor blank))) = Watched 1 (Ref 1) ''schema-change''"
  "heap (snd (alloc (JArr []) (constructor blank))) 2 = JArr []"
  by code_simp+

theorem assignment_wraps_objects_witness:
  "data (assign_data (Ref 2) (snd (alloc (JArr []) (constructor blank))))
     = Watched 2 (Ref 2) ''data-change''
   \<and> schema (assign_schema (Ref 2) (snd (alloc (JArr []) (constructor blank))))
     = Watched 2 (Ref 2) ''schema-change''
   \<and> data (assign_data (Prim (JStr [])) (snd (alloc (JArr []) (constructor blank))))
     = Prim (JStr [])
   \<and> 2 \<notin> set (wrapper_ids (data (snd (alloc (JArr []) (constructor blank)))))
   \<and> ids_fresh (assign_data (Ref 2) (snd (alloc (JArr []) (constructor blank))))
   \<and> data (constructor blank) = Watched 0 (Ref 0) ''data-change''
   \<and> read (constructor blank) (data (constructor blank)) = JArr []"
proof -
  let ?t = "snd (alloc (JArr []) (constructor blank))"
  note t = assignment_wraps_objects [where this = ?t and v = "Ref 2" and p = "JStr []"]
  have f: "ids_fresh ?t"
    by (simp add: ids_fresh_def ids_below_def new_array_facts)
  have o: "holds_object ?t (Ref 2)"
    by (simp add: new_array_facts)
  have "\<not> same_value (Ref 2) (data ?t)"
    by (simp add: new_array_facts)
  with t o
  have "assign_data (Ref 2) ?t
          = ?t\<lparr>data := Watched (next_id ?t) (Ref 2) ''data-change'',
                next_id := Suc (next_id ?t)\<rparr>"
    by blast
  then have a: "data (assign_data (Ref 2) ?t) = Watched 2 (Ref 2) ''data-change''"
    by (simp add: new_array_facts)
  have "\<not> same_value (Ref 2) (schema ?t)"
    by (simp add: new_array_facts)
  with t o
  have "assign_schema (Ref 2) ?t
          = ?t\<lparr>schema := Watched (next_id ?t) (Ref 2) ''schema-change'',
                next_id := Suc (next_id ?t)\<rparr>"
    by blast
  then have b: "schema (assign_schema (Ref 2) ?t) = Watched 2 (Ref 2) ''schema-change''"
    by (simp add: new_array_facts)
  have "\<not> truthy (JStr [])"
    by simp
  with t have c: "data (assign_data (Prim (JStr [])) ?t) = Prim (JStr [])"
    by blast
  from t f have "next_id ?t \<notin> set (wrapper_ids (data ?t))"
    by blast
  then have d: "2 \<notin> set (wrapper_ids (data ?t))"
    by (simp add: new_array_facts)
  have "ids_below (next_id ?t) (Ref 2)"
    by (simp add: ids_below_def)
  with t f have e: "ids_fresh (assign_data (Ref 2) ?t)"
    by blast
  have "data (constructor blank)
          = Watched (next_id blank) (Ref (next_addr blank)) ''data-change''"
    using assignment_wraps_objects [where this = blank] by blast
  then have g: "data (constructor blank) = Watched 0 (Ref 0) ''data-change''"
    by (simp add: blank_counters)
  have h: "read (constructor blank) (data (constructor blank)) = JArr []"
    using assignment_wraps_objects [where this = blank] by blast
  from a b c d e g h show ?thesis by blast
qed

theorem assignment_wraps_counterexample:
  "data (assign_data (Prim JNull) (constructor blank)) = Prim JNull
   \<and> wrapper_ids (data (assign_data (Prim JNull) (constructor blank))) = []"
  by (simp add: assign_data_cases same_value_def fresh_table_facts)

text \<open>
  Claim C9. A click on an expander, or on any cell that \<^verbatim>\<open>@click\<close> bound the handler
  to, toggles \<^verbatim>\<open>hidden\<close> on exactly the cells of its row that are tagged
  \<^verbatim>\<open>subrow\<close>, and toggles \<^verbatim>\<open>expanded\<close> on the clicked cell alone. The other
  classes, the tags and the contents of the cells of the row stay, and so do the cells
  of every other row, the header and the footer.
\<close>

theorem toggle_expand_click:
  assumes "r < length (tbody tree)" and "c < length (tbody tree ! r)"
    and "onclick (tbody tree ! r ! c)"
  shows "thead (click r c tree) = thead tree
         \<and> tfoot_records (click r c tree) = tfoot_records tree
         \<and> length (tbody (click r c tree)) = length (tbody tree)
         \<and> (\<forall>k < length (tbody tree). k \<noteq> r \<longrightarrow> tbody (click r c tree) ! k = tbody tree ! k)
         \<and> length (tbody (click r c tree) ! r) = length (tbody tree ! r)
         \<and> (\<forall>j < length (tbody tree ! r).
              tag (tbody (click r c tree) ! r ! j) = tag (tbody tree ! r ! j)
              \<and> inner (tbody (click r c tree) ! r ! j) = inner (tbody tree ! r ! j)
              \<and> onclick (tbody (click r c tree) ! r ! j) = onclick (tbody tree ! r ! j)
              \<and> (''hidden'' \<in> set (classes (tbody (click r c tree) ! r ! j)))
                  = ((''hidden'' \<in> set (classes (tbody tree ! r ! j)))
                     \<noteq> (''subrow'' \<in> set (classes (tbody tree ! r ! j))))
              \<and> (''expanded'' \<in> set (classes (tbody (click r c tree) ! r ! j)))
                  = ((''expanded'' \<in> set (classes (tbody tree ! r ! j))) \<noteq> (j = c))
              \<and> (\<forall>t. t \<noteq> ''hidden'' \<and> t \<noteq> ''expanded''
                   \<longrightarrow> (t \<in> set (classes (tbody (click r c tree) ! r ! j)))
                       = (t \<in> set (classes (tbody tree ! r ! j)))))"
proof -
  have c: "click r c tree = handleToggleExpandClick r c tree"
    using assms by (simp add: click_def)
  have row: "length (tbody (handleToggleExpandClick r c tree) ! r) = length (tbody tree ! r)"
    using assms by (simp add: handle_row)
  have cells: "\<And>j. j < length (tbody tree ! r) \<Longrightarrow>
      tbody (handleToggleExpandClick r c tree) ! r ! j =
           (if j = c then toggle_class ''expanded'' (toggle_subrow (tbody tree ! r ! j))
            else toggle_subrow (tbody tree ! r ! j))"
    using assms by (simp add: handle_cell)
  show ?thesis
    unfolding c
    by (simp add: handle_frame handle_other_rows row cells toggle_mem)
qed

lemma example_tree_eq:
  "example_tree =
     \<lparr>thead = [Cell ''th'' [] False Empty,
               Cell ''th'' [] False (Hole (Plain (JStr ''Id''))),
               Cell ''th'' [] False (Hole (Plain (JStr ''When'')))],
      tbody = [[Cell ''td'' [] False Empty,
                Cell ''td'' [] False (Hole (Plain (JNum 1))),
                Cell ''td'' [] False (Hole (Plain (JStr ''2024-01-15T00:00:00.000Z'')))],
               [Cell ''td'' [''expander''] True Empty,
                Cell ''td'' [] False (Hole (Plain (JNum 2))),
                Cell ''td'' [] False (Hole (Plain (JStr []))),
                Cell ''td'' [''subrow'', ''hidden''] True Empty,
                Cell ''td'' [''subrow'', ''hidden''] False (Hole (Plain (JNum 3))),
                Cell ''td'' [''subrow'', ''hidden''] False (Hole (Plain (JStr [])))],
               [Cell ''td'' [''expander''] True Empty,
                Cell ''td'' [] False (Hole (Plain (JNum 4))),
                Cell ''td'' [] False (Hole (Plain (JStr []))),
                Cell ''td'' [''subrow'', ''hidden''] True Empty,
                Cell ''td'' [''subrow'', ''hidden''] False (Hole (Plain (JNum 5))),
                Cell ''td'' [''subrow'', ''hidden''] False (Hole (Plain (JStr [])))]],
      tfoot_records = JNum 3\<rparr>"
  by code_simp

theorem toggle_expand_click_witness:
  "length (tbody (click 1 0 example_tree)) = 3
   \<and> thead (click 1 0 example_tree) = thead example_tree
   \<and> tbody (click 1 0 example_tree) ! 0 = tbody example_tree ! 0
   \<and> tbody (click 1 0 example_tree) ! 2 = tbody example_tree ! 2
   \<and> map classes (tbody (click 1 0 example_tree) ! 1)
       = [[''expander'', ''expanded''], [], [], [''subrow''], [''subrow''], [''subrow'']]
   \<and> click 1 0 (click 1 0 example_tree) = example_tree"
proof -
  have h: "1 < length (tbody example_tree)" "0 < length (tbody example_tree ! 1)"
    "onclick (tbody example_tree ! 1 ! 0)"
    by (simp_all add: example_tree_eq)
  note t = toggle_expand_click [OF h]
  have n: "length (tbody example_tree) = 3"
    by (simp add: example_tree_eq)
  from t n have a: "length (tbody (click 1 0 example_tree)) = 3"
    by simp
  from t have b: "thead (click 1 0 example_tree) = thead example_tree"
    by blast
  from t have "\<forall>k < length (tbody example_tree). k \<noteq> 1 \<longrightarrow>
                 tbody (click 1 0 example_tree) ! k = tbody example_tree ! k"
    by blast
  with n have c: "tbody (click 1 0 example_tree) ! 0 = tbody example_tree ! 0"
    and d: "tbody (click 1 0 example_tree) ! 2 = tbody example_tree ! 2"
    by simp_all
  have e: "map classes (tbody (click 1 0 example_tree) ! 1)
       = [[''expander'', ''expanded''], [], [], [''subrow''], [''subrow''], [''subrow'']]"
    by code_simp
  have f: "click 1 0 (click 1 0 example_tree) = example_tree"
    by code_simp
  from a b c d e f show ?thesis by blast
qed

end
